theory Spec2Isabelle
  imports Main
begin

section \<open>JavaScript values used by the client\<close>

text \<open>
  Strings are lists of 8-bit characters, read as code units below 256.  A thrown value is
  either an \<open>Error\<close> object with its message or some other value; the code tells the two
  apart with \<open>instanceof Error\<close>.  Writes to the console are not modelled: no value
  returned or raised by the code depends on them.
\<close>

datatype js_error = Error string | NonError string

text \<open>Truthiness of a string that may be \<open>undefined\<close> or \<open>null\<close>.\<close>

definition truthy :: "string option \<Rightarrow> bool" where
  "truthy s = (case s of None \<Rightarrow> False | Some t \<Rightarrow> t \<noteq> [])"

text \<open>The operator \<open>a || b\<close> on a string that may be missing and a default.\<close>

definition or_else :: "string option \<Rightarrow> string \<Rightarrow> string" where
  "or_else s d = (case s of None \<Rightarrow> d | Some t \<Rightarrow> if t = [] then d else t)"

text \<open>Decimal rendering of a number inside a template literal.\<close>

definition digit_char :: "nat \<Rightarrow> char" where
  "digit_char d = ''0123456789'' ! d"

fun string_of_nat :: "nat \<Rightarrow> string" where
  "string_of_nat n =
     (if n < 10 then [digit_char n]
      else string_of_nat (n div 10) @ [digit_char (n mod 10)])"

declare string_of_nat.simps [simp del]

section \<open>Data model (client/src/lib/api.ts)\<close>

text \<open>
  The body of the answer to the POST that creates a job.  \<open>job_id\<close> and \<open>status\<close> are
  the fields of \<open>JobCreationResponse\<close>; \<open>error\<close> is the field \<open>createJob\<close> reads from
  the body of a failed request (\<open>errorData.error\<close>).
\<close>

record JobCreationResponse =
  job_id :: string
  status :: string
  error :: "string option"

record JobUpdate =
  id_num :: int
  job_id :: string
  status :: string
  message :: string
  created_at :: string

text \<open>
  \<open>JobDetails\<close>: the content of the \<open>job\<close> object of the API response.  An optional
  field (\<open>?:\<close>) and a nullable one are both an \<open>option\<close>.  The declared type of
  \<open>status\<close> is a union of string literals, which the compiler erases: at run time the
  field holds whatever string the response carried, and the code compares it with
  strings outside the declared union, so it is a \<open>string\<close> here.
\<close>

record JobDetails =
  job_id :: string
  status :: string
  created_at :: string
  updated_at :: "string option"
  completed_at :: "string option"
  error :: "string option"
  result :: "string option"
  persona_id :: "string option"
  query :: "string option"
  video_available :: "bool option"
  video_url :: "string option"

record FetchedJobData =
  job :: JobDetails
  updates :: "JobUpdate list"

record Celebrity =
  celeb_id :: string
  celeb_name :: string
  celeb_image :: string

section \<open>The network as seen by \<open>fetch\<close>\<close>

text \<open>
  A request is a GET of a URL or the POST of \<open>{query, persona}\<close> to a URL.  The promise
  returned by \<open>fetch\<close> rejects (\<open>Inl\<close>) or resolves to a response with its \<open>ok\<close> flag,
  its numeric status and the outcome of \<open>response.json()\<close>, which itself may reject.
  Every modelled function returns the list of requests it issued beside its result.
\<close>

datatype request = GET string | POST string string string

datatype 'b response = Response (ok: bool) (status_code: nat) (json: "js_error + 'b")

type_synonym 'b fetch = "request \<Rightarrow> js_error + 'b response"

definition API_BASE_URL :: "string option \<Rightarrow> string" where
  "API_BASE_URL env = or_else env ''http://localhost:8000/api''"

section \<open>Job lookup (client/src/lib/api.ts)\<close>

definition getJobStatus ::
  "string option \<Rightarrow> 'b fetch \<Rightarrow> string \<Rightarrow> request list \<times> (js_error + 'b)" where
  "getJobStatus env fetch jobId =
     (let req = GET (API_BASE_URL env @ ''/jobs/'' @ jobId) in
      ([req],
       case fetch req of
         Inl e \<Rightarrow> Inl e
       | Inr response \<Rightarrow>
           if \<not> ok response
           then Inl (Error (''Failed to fetch job status: '' @ string_of_nat (status_code response)))
           else json response))"

definition getJobWithUpdates ::
  "string option \<Rightarrow> 'b fetch \<Rightarrow> string \<Rightarrow> request list \<times> (js_error + 'b)" where
  "getJobWithUpdates env fetch jobId =
     (let req = GET (API_BASE_URL env @ ''/jobs/'' @ jobId) in
      ([req],
       case fetch req of
         Inl e \<Rightarrow> Inl e
       | Inr response \<Rightarrow>
           if \<not> ok response
           then Inl (Error (''Failed to fetch job with updates: '' @ string_of_nat (status_code response)))
           else json response))"

section \<open>Job creation (client/src/lib/api.ts)\<close>

definition createJob ::
  "string option \<Rightarrow> JobCreationResponse fetch \<Rightarrow> string \<Rightarrow> string \<Rightarrow>
     request list \<times> (js_error + JobCreationResponse)" where
  "createJob env fetch query' personaId =
     (let req = POST (API_BASE_URL env @ ''/jobs'') query' personaId in
      ([req],
       case fetch req of
         Inl e \<Rightarrow> Inl e
       | Inr response \<Rightarrow>
           if \<not> ok response
           then (case json response of
                   Inl e \<Rightarrow> Inl e
                 | Inr errorData \<Rightarrow>
                     Inl (Error (or_else (JobCreationResponse.error errorData)
                       (''Failed to create job: '' @ string_of_nat (status_code response)))))
           else json response))"

section \<open>The job context (client/src/lib/job-context.tsx)\<close>

text \<open>
  A ref of the provider is a plain object created as \<open>{}\<close> and indexed by job id.  A read
  \<open>obj[key]\<close> finds an own property, or else a property inherited from
  \<open>Object.prototype\<close> (a function, or the prototype itself for \<open>__proto__\<close>), or else
  \<open>undefined\<close>.  An assignment \<open>obj[key] = v\<close> of a boolean or a number creates or updates
  an own property, except at \<open>__proto__\<close>, whose setter ignores such a value.  The own
  properties are a map.
\<close>

definition object_prototype_keys :: "string list" where
  "object_prototype_keys =
     [''constructor'', ''__defineGetter__'', ''__defineSetter__'', ''hasOwnProperty'',
      ''__lookupGetter__'', ''__lookupSetter__'', ''isPrototypeOf'', ''propertyIsEnumerable'',
      ''toString'', ''valueOf'', ''__proto__'', ''toLocaleString'']"

datatype 'a looked_up = Undefined | Own 'a | Inherited

definition obj_get :: "(string \<rightharpoonup> 'a) \<Rightarrow> string \<Rightarrow> 'a looked_up" where
  "obj_get obj key =
     (if key = ''__proto__'' then Inherited
      else case obj key of
             Some v \<Rightarrow> Own v
           | None \<Rightarrow> if key \<in> set object_prototype_keys then Inherited else Undefined)"

definition obj_set :: "(string \<rightharpoonup> 'a) \<Rightarrow> string \<Rightarrow> 'a \<Rightarrow> (string \<rightharpoonup> 'a)" where
  "obj_set obj key v = (if key = ''__proto__'' then obj else obj(key \<mapsto> v))"

text \<open>
  The provider's React state (\<open>jobData\<close>, \<open>loading\<close>, \<open>error\<close>) and the own properties of
  its two refs.  Times are milliseconds, as \<open>Date.now()\<close> gives them.
\<close>

record provider =
  jobData :: "FetchedJobData option"
  loading :: bool
  error :: "string option"
  lastFetchTime :: "string \<rightharpoonup> int"
  isFetching :: "string \<rightharpoonup> bool"

definition initial_provider :: provider where
  "initial_provider =
     \<lparr>jobData = None, loading = False, error = None,
      lastFetchTime = Map.empty, isFetching = Map.empty\<rparr>"

definition clearJob :: "provider \<Rightarrow> provider" where
  "clearJob st = st\<lparr>jobData := None, error := None\<rparr>"

text \<open>
  \<open>createNewJob\<close>, from the call to the settling of the request: the three state updates,
  the request, then \<open>catch\<close> and \<open>finally\<close>.
\<close>

definition createNewJob ::
  "string option \<Rightarrow> JobCreationResponse fetch \<Rightarrow> provider \<Rightarrow> string \<Rightarrow> string \<Rightarrow>
     provider \<times> request list \<times> (js_error + JobCreationResponse)" where
  "createNewJob env fetch st query' personaId =
     (let st1 = st\<lparr>loading := True, error := None, jobData := None\<rparr>;
          (reqs, r) = createJob env fetch query' personaId
      in case r of
           Inr newJobDetails \<Rightarrow> (st1\<lparr>loading := False\<rparr>, reqs, Inr newJobDetails)
         | Inl err \<Rightarrow>
             (let errorMessage = (case err of Error m \<Rightarrow> m | NonError _ \<Rightarrow> ''Failed to create job'')
              in (st1\<lparr>error := Some errorMessage, loading := False\<rparr>, reqs,
                  Inl (Error errorMessage))))"

text \<open>
  The snapshot \<open>fetchJobById\<close> makes up when a fetch for the job is in flight and it
  holds no data; \<open>nowISO\<close> is the text of \<open>new Date().toISOString()\<close>.
\<close>

definition placeholder :: "string \<Rightarrow> string \<Rightarrow> FetchedJobData" where
  "placeholder jobId nowISO =
     \<lparr>job = \<lparr>job_id = jobId, status = ''pending'', created_at = nowISO,
              updated_at = None, completed_at = None, JobDetails.error = None, result = None,
              persona_id = None, query = None, video_available = None, video_url = None\<rparr>,
      updates = []\<rparr>"

text \<open>
  \<open>fetchJobById\<close> is asynchronous.  Its first part runs up to the \<open>await\<close>: it either
  resolves at once (\<open>Some\<close>) or has marked the job as being fetched and waits for the
  network (\<open>None\<close>).  The callback reads \<open>jobData\<close> from the closure it was created in
  (\<open>useCallback\<close> with the dependency \<open>[jobData]\<close>), so that value is an argument of its
  own, \<open>jobData\<^sub>c\<close>; a caller holding the callback of the latest render passes the
  provider's current \<open>jobData\<close>.  An inherited property is truthy.  \<open>lastFetch\<close> is the
  own number, or 0 for \<open>undefined\<close> (and for an own 0); with an inherited property, which
  is not a number, the subtraction gives \<open>NaN\<close> and the comparison is false (\<open>None\<close>).
\<close>

definition fetchJobById_begin ::
  "FetchedJobData option \<Rightarrow> provider \<Rightarrow> string \<Rightarrow> int \<Rightarrow> string \<Rightarrow>
     provider \<times> FetchedJobData option" where
  "fetchJobById_begin jobData\<^sub>c st jobId now nowISO =
     (if (case obj_get (isFetching st) jobId of
            Undefined \<Rightarrow> False | Own b \<Rightarrow> b | Inherited \<Rightarrow> True)
      then (st, Some (case jobData\<^sub>c of Some d \<Rightarrow> d | None \<Rightarrow> placeholder jobId nowISO))
      else
        (let lastFetch = (case obj_get (lastFetchTime st) jobId of
                            Undefined \<Rightarrow> Some 0 | Own t \<Rightarrow> Some t | Inherited \<Rightarrow> None) in
         if (case lastFetch of None \<Rightarrow> False | Some t \<Rightarrow> now - t < 3000) \<and>
            (case jobData\<^sub>c of None \<Rightarrow> False | Some d \<Rightarrow> JobDetails.job_id (job d) = jobId)
         then (st, jobData\<^sub>c)
         else (st\<lparr>isFetching := obj_set (isFetching st) jobId True, loading := True,
                   lastFetchTime := obj_set (lastFetchTime st) jobId now\<rparr>, None)))"

text \<open>The second part runs when \<open>getJobStatus\<close> has settled: \<open>try\<close>, \<open>catch\<close>, \<open>finally\<close>.\<close>

definition fetchJobById_settle ::
  "provider \<Rightarrow> string \<Rightarrow> js_error + FetchedJobData \<Rightarrow> provider \<times> (js_error + FetchedJobData)" where
  "fetchJobById_settle st jobId r =
     (case r of
        Inr fetchedData \<Rightarrow>
          (st\<lparr>jobData := Some fetchedData, error := None, loading := False,
              isFetching := obj_set (isFetching st) jobId False\<rparr>, Inr fetchedData)
      | Inl err \<Rightarrow>
          (st\<lparr>error := Some (case err of Error m \<Rightarrow> m | NonError _ \<Rightarrow> ''Failed to fetch job''),
              loading := False,
              isFetching := obj_set (isFetching st) jobId False\<rparr>, Inl err))"

text \<open>A whole call whose request, if any, settles before anything else happens.\<close>

definition fetchJobById ::
  "FetchedJobData option \<Rightarrow> string option \<Rightarrow> FetchedJobData fetch \<Rightarrow> provider \<Rightarrow> string \<Rightarrow>
     int \<Rightarrow> string \<Rightarrow> provider \<times> request list \<times> (js_error + FetchedJobData)" where
  "fetchJobById jobData\<^sub>c env fetch st jobId now nowISO =
     (case fetchJobById_begin jobData\<^sub>c st jobId now nowISO of
        (st1, Some d) \<Rightarrow> (st1, [], Inr d)
      | (st1, None) \<Rightarrow>
          (let (reqs, r) = getJobStatus env fetch jobId;
               (st2, res) = fetchJobById_settle st1 jobId r
           in (st2, reqs, res)))"

section \<open>The results page (client/src/app/results/[jobId]/page.tsx)\<close>

text \<open>
  The page's two refs.  \<open>timeoutRef\<close> holds the armed timer, given by its delay in
  milliseconds; every timer of the page is set and cleared through it.
\<close>

record page =
  timeoutRef :: "nat option"
  isUnmountedRef :: bool

text \<open>
  \<open>scheduleFetch\<close> reads \<open>jobId\<close> and \<open>jobData\<close> from the closure of the render it was
  created in; both are arguments here.  An empty string is falsy.
\<close>

definition scheduleFetch :: "FetchedJobData option \<Rightarrow> string \<Rightarrow> page \<Rightarrow> page" where
  "scheduleFetch jobData\<^sub>c jobId pg =
     (let pg1 = (if timeoutRef pg \<noteq> None then pg\<lparr>timeoutRef := None\<rparr> else pg) in
      if \<not> isUnmountedRef pg1 \<and> jobId \<noteq> [] \<and>
         (case jobData\<^sub>c of
            None \<Rightarrow> True
          | Some d \<Rightarrow>
              JobDetails.status (job d) = [] \<or>
              (JobDetails.status (job d) \<noteq> ''completed'' \<and>
               JobDetails.status (job d) \<noteq> ''failed'' \<and>
               JobDetails.status (job d) \<noteq> ''error''))
      then pg1\<lparr>timeoutRef := Some 5000\<rparr>
      else pg1)"

text \<open>What the page chains to a fetch: \<open>.then\<close> on success, \<open>.catch\<close> on failure.\<close>

definition after_fetch ::
  "FetchedJobData option \<Rightarrow> string \<Rightarrow> js_error + FetchedJobData \<Rightarrow> page \<Rightarrow> page" where
  "after_fetch jobData\<^sub>c jobId r pg =
     (case r of
        Inr _ \<Rightarrow> scheduleFetch jobData\<^sub>c jobId pg
      | Inl err \<Rightarrow> scheduleFetch jobData\<^sub>c jobId pg)"

text \<open>
  The callback of the timer.  It is created inside \<open>scheduleFetch\<close>, so it calls the
  \<open>fetchJobById\<close> and the \<open>scheduleFetch\<close> of that same render, with the same \<open>jobData\<close>.
\<close>

definition timer_callback ::
  "FetchedJobData option \<Rightarrow> string option \<Rightarrow> FetchedJobData fetch \<Rightarrow> string \<Rightarrow>
     page \<times> provider \<Rightarrow> int \<Rightarrow> string \<Rightarrow> page \<times> provider \<times> request list" where
  "timer_callback jobData\<^sub>c env fetch jobId ps now nowISO =
     (case ps of (pg, st) \<Rightarrow>
        if \<not> isUnmountedRef pg \<and> jobId \<noteq> []
        then (let (st1, reqs, r) = fetchJobById jobData\<^sub>c env fetch st jobId now nowISO
              in (after_fetch jobData\<^sub>c jobId r pg, st1, reqs))
        else (pg, st, []))"

text \<open>
  The effect of the page, which runs when \<open>jobId\<close> changes and only then (its dependency
  list is \<open>[jobId]\<close>), and its cleanup.
\<close>

definition mount_effect ::
  "FetchedJobData option \<Rightarrow> string option \<Rightarrow> FetchedJobData fetch \<Rightarrow> string \<Rightarrow>
     page \<times> provider \<Rightarrow> int \<Rightarrow> string \<Rightarrow> page \<times> provider \<times> request list" where
  "mount_effect jobData\<^sub>c env fetch jobId ps now nowISO =
     (case ps of (pg, st) \<Rightarrow>
        (let pg1 = pg\<lparr>isUnmountedRef := False\<rparr> in
         if jobId \<noteq> []
         then (let st1 = (case jobData\<^sub>c of
                            None \<Rightarrow> st
                          | Some d \<Rightarrow> if JobDetails.job_id (job d) \<noteq> jobId then clearJob st else st);
                   (st2, reqs, r) = fetchJobById jobData\<^sub>c env fetch st1 jobId now nowISO
               in (after_fetch jobData\<^sub>c jobId r pg1, st2, reqs))
         else (pg1, st, [])))"

definition unmount_cleanup :: "page \<Rightarrow> page" where
  "unmount_cleanup pg =
     (let pg1 = pg\<lparr>isUnmountedRef := True\<rparr> in
      if timeoutRef pg1 \<noteq> None then pg1\<lparr>timeoutRef := None\<rparr> else pg1)"

section \<open>The dashboard (\<open>DashboardPage\<close>, \<open>handleGenerate\<close>)\<close>

text \<open>
  \<open>String.prototype.trim\<close> removes white space and line terminators from both ends.
  Among the code units below 256 these are TAB, LF, VT, FF, CR, SPACE and NBSP.
\<close>

definition is_white_space :: "char \<Rightarrow> bool" where
  "is_white_space c = (of_char c \<in> {9, 10, 11, 12, 13, 32, 160 :: nat})"

definition trim :: "string \<Rightarrow> string" where
  "trim s = rev (dropWhile is_white_space (rev (dropWhile is_white_space s)))"

text \<open>The part of the dashboard's state that \<open>handleGenerate\<close> reads or writes.\<close>

record dashboard =
  selectedCelebrity :: "Celebrity option"
  topic :: string
  isSubmitting :: bool
  loadError :: "string option"

text \<open>
  \<open>handleGenerate\<close>, from the click to the settling of the request.  It returns the two
  states, the requests issued and the route pushed to the router, if any.
\<close>

definition handleGenerate ::
  "string option \<Rightarrow> JobCreationResponse fetch \<Rightarrow> dashboard \<times> provider \<Rightarrow>
     dashboard \<times> provider \<times> request list \<times> string option" where
  "handleGenerate env fetch ds =
     (case ds of (dash, st) \<Rightarrow>
        if selectedCelebrity dash = None \<or> trim (topic dash) = [] \<or> isSubmitting dash
        then (dash, st, [], None)
        else
          (let dash1 = dash\<lparr>isSubmitting := True, loadError := None\<rparr>;
               st1 = clearJob st;
               (st2, reqs, r) = createNewJob env fetch st1 (trim (topic dash))
                                  (celeb_id (the (selectedCelebrity dash)))
           in case r of
                Inr newJob \<Rightarrow>
                  (dash1\<lparr>isSubmitting := False\<rparr>, st2, reqs,
                   Some (''/results/'' @ JobCreationResponse.job_id newJob))
              | Inl err \<Rightarrow>
                  (dash1\<lparr>loadError := Some ''Failed to start explanation generation. Please try again.'',
                         isSubmitting := False\<rparr>, st2, reqs, None)))"

section \<open>The result view (client/src/components/job-result.tsx)\<close>

text \<open>
  What a component renders: text, or an element with its tag, the attributes that carry
  data, and its children.  Class names and event handlers are left out.  An element of the page
  has a lower-case tag (\<open>video\<close>); a component keeps its own name (\<open>Video\<close> is an icon).
  A component that may render nothing returns a list of at most one node.
\<close>

datatype node = Text string | Elem string "(string \<times> string) list" "node list"

fun tags :: "node \<Rightarrow> string list" where
  "tags (Text s) = []"
| "tags (Elem t as cs) = t # concat (map tags cs)"

fun texts :: "node \<Rightarrow> string list" where
  "texts (Text s) = [s]"
| "texts (Elem t as cs) = concat (map texts cs)"

text \<open>
  \<open>toLowerCase\<close> on code units below 256 (the letters A to Z and the accented capitals
  of Latin-1), and \<open>String.prototype.includes\<close>.
\<close>

definition toLowerCase :: "string \<Rightarrow> string" where
  "toLowerCase s =
     map (\<lambda>c. let n = (of_char c :: nat) in
               if (65 \<le> n \<and> n \<le> 90) \<or> (192 \<le> n \<and> n \<le> 222 \<and> n \<noteq> 215)
               then char_of (n + 32) else c) s"

fun str_includes :: "string \<Rightarrow> string \<Rightarrow> bool" where
  "str_includes [] sub = (sub = [])"
| "str_includes (c # cs) sub = (take (length sub) (c # cs) = sub \<or> str_includes cs sub)"

definition getStatusIcon :: "string \<Rightarrow> node" where
  "getStatusIcon status' =
     (let lowerStatus = toLowerCase status' in
      if str_includes lowerStatus ''complete'' then Elem ''CheckCircle'' [] []
      else if str_includes lowerStatus ''fail'' then Elem ''AlertCircle'' [] []
      else if str_includes lowerStatus ''error'' then Elem ''AlertCircle'' [] []
      else if str_includes lowerStatus ''processing'' then Elem ''Loader'' [] []
      else if str_includes lowerStatus ''created'' then Elem ''FilePlus'' [] []
      else if str_includes lowerStatus ''generating speech'' then Elem ''MessageSquare'' [] []
      else if str_includes lowerStatus ''generating visuals'' then Elem ''Clapperboard'' [] []
      else Elem ''Loader'' [] [])"

text \<open>
  One row of the timeline; \<open>fmt\<close> stands for the locale's rendering of the time of
  \<open>created_at\<close> (\<open>toLocaleTimeString\<close>).
\<close>

definition update_row :: "(string \<Rightarrow> string) \<Rightarrow> JobUpdate \<Rightarrow> node" where
  "update_row fmt update =
     Elem ''div'' []
       [Elem ''div'' [] [getStatusIcon (JobUpdate.status update)],
        Elem ''div'' []
          ([Elem ''div'' []
              [Elem ''span'' [] [Text (JobUpdate.status update)],
               Elem ''span'' [] [Text (fmt (JobUpdate.created_at update))]]] @
           (if message update = [] then []
            else [Elem ''p'' [] [Text (message update)]]))]"

definition UpdatesTimeline :: "(string \<Rightarrow> string) \<Rightarrow> JobUpdate list \<Rightarrow> string \<Rightarrow> node list" where
  "UpdatesTimeline fmt updates' title =
     (if length updates' = 0 then []
      else [Elem ''div'' []
              [Elem ''div'' [] [Elem ''h3'' [] [Text title]],
               Elem ''div'' []
                 [if length updates' > 0
                  then Elem ''div'' [] (map (update_row fmt) updates')
                  else Elem ''p'' [] [Text ''No updates yet...'']]]])"

definition JobIdDisplay :: "string \<Rightarrow> node list" where
  "JobIdDisplay id' =
     (if id' = [] then []
      else [Elem ''div'' []
              [Elem ''label'' [(''htmlFor'', ''jobIdInput'')] [Text ''Job ID:''],
               Elem ''Input'' [(''id'', ''jobIdInput''), (''value'', id'), (''readOnly'', ''true'')] []]])"

text \<open>
  \<open>JobResult\<close> reads \<open>jobData\<close>, \<open>loading\<close> and \<open>error\<close> from the context and the job id
  from the route; it returns \<open>None\<close> where the component returns \<open>null\<close>.  The branches
  are in the order of the source.
\<close>

definition JobResult ::
  "(string \<Rightarrow> string) \<Rightarrow> FetchedJobData option \<Rightarrow> bool \<Rightarrow> string option \<Rightarrow> string \<Rightarrow>
     node option" where
  "JobResult fmt jobData' loading' error' currentJobId =
     (let jobDetails = map_option job jobData';
          jobUpdates = (case jobData' of None \<Rightarrow> [] | Some d \<Rightarrow> updates d)
      in
      if loading' \<and> jobData' = None \<and> \<not> truthy error'
      then Some (Elem ''div'' []
             [Elem ''div'' []
                ([Elem ''div'' []
                    [Elem ''Loader'' [] [],
                     Elem ''p'' [] [Text ''Retrieving job details...'']]] @
                 JobIdDisplay currentJobId)])
      else if truthy error' \<and> jobDetails = None
      then Some (Elem ''div'' []
             [Elem ''div'' []
                [Elem ''div'' []
                   [Elem ''AlertCircle'' [] [],
                    Elem ''h3'' [] [Text ''Error'']],
                 Elem ''p'' [] [Text ''We encountered a problem retrieving the job details.'']],
              Elem ''div'' []
                ([Elem ''p'' [] [Text (or_else error' [])]] @ JobIdDisplay currentJobId),
              Elem ''div'' [] [Elem ''Button'' [] [Text ''Try Again'']]])
      else case jobDetails of
        None \<Rightarrow> None
      | Some jd \<Rightarrow>
          if JobDetails.status jd = ''failed'' \<or> JobDetails.status jd = ''error''
          then Some (Elem ''div'' []
                 [Elem ''div'' []
                    [Elem ''div'' []
                       [Elem ''AlertCircle'' [] [],
                        Elem ''h3'' [] [Text ''Generation Failed'']],
                     Elem ''p'' [] [Text (''We couldn'' @ [CHR 0x27] @ ''t generate your explanation.'')]],
                  Elem ''div'' []
                    ([Elem ''p'' []
                        [Text ''Reason: '',
                         Text (or_else (JobDetails.error jd) ''Unknown error occurred'')]] @
                     JobIdDisplay (JobDetails.job_id jd) @
                     UpdatesTimeline fmt jobUpdates ''Attempt Details''),
                  Elem ''div'' [] [Elem ''Button'' [] [Text ''Try Again'']]])
          else if JobDetails.status jd = ''completed''
          then
            (let absoluteVideoUrl =
                   (case video_url jd of
                      None \<Rightarrow> None
                    | Some u \<Rightarrow> if u = [] then None else Some (''http://127.0.0.1:8000'' @ u))
             in Some (Elem ''div'' []
                  ([case (if video_available jd = Some True then absoluteVideoUrl else None) of
                      Some src \<Rightarrow>
                        Elem ''div'' []
                          [Elem ''video''
                             [(''controls'', ''true''), (''width'', ''100%''), (''src'', src),
                              (''autoPlay'', ''true''), (''playsInline'', ''true'')]
                             [Text ''Your browser does not support the video tag.'']]
                    | None \<Rightarrow>
                        Elem ''div'' []
                          [Elem ''Video'' [(''size'', ''40'')] [],
                           Elem ''p'' [] [Text ''Video is not available for this explanation.'']]] @
                   (case result jd of
                      None \<Rightarrow> []
                    | Some r \<Rightarrow>
                        if r = [] then []
                        else [Elem ''div'' []
                                [Elem ''label'' [(''htmlFor'', ''explanationText'')]
                                   [Text ''Generated Explanation Text''],
                                 Elem ''Textarea''
                                   [(''id'', ''explanationText''), (''value'', r),
                                    (''readOnly'', ''true''), (''rows'', ''10'')] []]]) @
                   JobIdDisplay (JobDetails.job_id jd) @
                   UpdatesTimeline fmt jobUpdates ''Generation Timeline'' @
                   [Elem ''div'' [] [Elem ''Button'' [] [Text ''Generate Another'']]])))
          else if JobDetails.status jd = ''pending'' \<or> JobDetails.status jd = ''processing'' \<or>
                  JobDetails.status jd = ''created''
          then Some (Elem ''div'' []
                 (JobIdDisplay (JobDetails.job_id jd) @
                  [Elem ''p'' []
                     [Text ''Status: '', Text (JobDetails.status jd),
                      Text ''. Your request is being processed. Please be patient.'']] @
                  UpdatesTimeline fmt jobUpdates ''Current Progress'' @
                  [Elem ''div'' []
                     [Elem ''Button'' [(''disabled'', if loading' then ''true'' else ''false'')]
                        [Text (if loading' then ''Processing...'' else ''Cancel / Reset'')]]]))
          else Some (Elem ''div'' []
                 ([Elem ''p'' [] [Text ''Waiting for job information...'']] @
                  (if currentJobId \<noteq> [] then JobIdDisplay currentJobId else []))))"

text \<open>The tags that the timeline and the job id display can produce.\<close>

definition component_tags :: "string set" where
  "component_tags =
     {''div'', ''span'', ''p'', ''h3'', ''label'', ''Input'', ''CheckCircle'', ''AlertCircle'',
      ''Loader'', ''FilePlus'', ''MessageSquare'', ''Clapperboard''}"

section \<open>The orchestrator of the server\<close>

text \<open>
  The job store, the pipeline graph and the orchestrator run in the server, whose code
  is not among the sources at hand; the client above only reads what they write.  Each
  definition of this section stands for a part of that missing code and follows sections
  3, 4.1, 4.2 and 4.4 of the specification.
\<close>

text \<open>
  Modelled from the spec: the five stages of the server's pipeline graph (section 4.2),
  which is missing from the sources.
\<close>

datatype stage =
  script_generation | speech_synthesis | visual_generation | lipsync_processing | video_assembly

text \<open>
  Modelled from the spec: the edges of the missing pipeline graph (section 4.2), as the
  list of stages each stage waits for.
\<close>

fun dependencies :: "stage \<Rightarrow> stage list" where
  "dependencies script_generation = []"
| "dependencies speech_synthesis = [script_generation]"
| "dependencies visual_generation = [script_generation]"
| "dependencies lipsync_processing = [speech_synthesis, visual_generation]"
| "dependencies video_assembly = [lipsync_processing, visual_generation]"

text \<open>Modelled from the spec: all stages of the missing pipeline graph, in pipeline order.\<close>

definition all_stages :: "stage list" where
  "all_stages =
     [script_generation, speech_synthesis, visual_generation, lipsync_processing, video_assembly]"

text \<open>
  Modelled from the spec: \<open>ReadyStages\<close> of the missing pipeline graph (section 4.2), the
  stages whose dependencies are all completed and that are not yet started.
\<close>

definition ReadyStages :: "stage set \<Rightarrow> stage set \<Rightarrow> stage list" where
  "ReadyStages completedSet started =
     filter (\<lambda>s. set (dependencies s) \<subseteq> completedSet \<and> s \<notin> started) all_stages"

text \<open>
  Modelled from the spec: \<open>IsTerminal\<close> of the missing pipeline graph (section 4.2), all
  stages completed.
\<close>

definition IsTerminal :: "stage set \<Rightarrow> bool" where
  "IsTerminal completedSet = (set all_stages \<subseteq> completedSet)"

text \<open>
  Modelled from the spec: the status the missing orchestrator reports while a stage is in
  flight (section 3 lists the statuses, section 4.4 gives one to each stage).
\<close>

fun in_progress :: "stage \<Rightarrow> string" where
  "in_progress script_generation = ''script_generating''"
| "in_progress speech_synthesis = ''speech_synthesizing''"
| "in_progress visual_generation = ''visual_generating''"
| "in_progress lipsync_processing = ''lipsync_processing''"
| "in_progress video_assembly = ''assembling''"

text \<open>
  Modelled from the spec: the message of a job update written by the missing job store
  (section 3); it says what happened and to which stage.
\<close>

datatype update_message =
  Job_created
| Stage_started stage
| Stage_succeeded stage string
| Stage_failed stage string
| Job_completed string
| Internal_error string

text \<open>
  Modelled from the spec: a job update of the missing job store (section 3), reduced to
  its status and its message.
\<close>

type_synonym job_update = "string \<times> update_message"

text \<open>
  Modelled from the spec: the job as the missing orchestrator holds it (sections 3 and
  4.4), with the set of completed stages, the set of started ones and the append-only log
  of updates, oldest first.
\<close>

record orchestrator =
  job_status :: string
  completedSet :: "stage set"
  started :: "stage set"
  update_log :: "job_update list"

text \<open>
  Modelled from the spec: \<open>Create\<close> of the missing job store (section 4.1), a job in status
  \<open>created\<close> with its initial update.
\<close>

definition Create :: orchestrator where
  "Create =
     \<lparr>job_status = ''created'', completedSet = {}, started = {},
      update_log = [(''created'', Job_created)]\<rparr>"

text \<open>
  Modelled from the spec: \<open>Transition\<close> of the missing job store (section 4.1), which sets
  the status and appends an update carrying that status, as one unit.
\<close>

definition Transition :: "orchestrator \<Rightarrow> string \<Rightarrow> update_message \<Rightarrow> orchestrator" where
  "Transition j newStatus msg =
     j\<lparr>job_status := newStatus, update_log := update_log j @ [(newStatus, msg)]\<rparr>"

text \<open>
  Modelled from the spec: the terminal statuses of the missing job store (section 3 and
  the glossary).
\<close>

definition is_terminal_status :: "string \<Rightarrow> bool" where
  "is_terminal_status s = (s = ''completed'' \<or> s = ''failed'')"

text \<open>
  Modelled from the spec: what can happen to a job under the missing orchestrator
  (section 4.4).
\<close>

datatype event =
  Launch stage
| Succeed stage string
| Fail stage string
| Finish string
| Deadlock

text \<open>
  Modelled from the spec: one step of the missing orchestrator (section 4.4).  A ready
  stage is launched, after a transition to its in-progress status; when the other stage of
  the concurrent pair is already in flight, the reported status stays the one of the first.
  A stage in flight succeeds, with an update naming it, or fails, which finalizes the job
  as failed.  When all stages are completed the job is finalized as completed.  When
  nothing is ready, nothing is in flight and the job is not finished, it fails with an
  internal error.  A job in a terminal status accepts nothing (\<open>None\<close>).
\<close>

fun orchestrate :: "orchestrator \<Rightarrow> event \<Rightarrow> orchestrator option" where
  "orchestrate j (Launch s) =
     (if \<not> is_terminal_status (job_status j) \<and> s \<in> set (ReadyStages (completedSet j) (started j))
      then Some ((Transition j
                    (if started j - completedSet j = {} then in_progress s else job_status j)
                    (Stage_started s))
                 \<lparr>started := insert s (started j)\<rparr>)
      else None)"
| "orchestrate j (Succeed s summary) =
     (if \<not> is_terminal_status (job_status j) \<and> s \<in> started j \<and> s \<notin> completedSet j
      then Some ((Transition j (job_status j) (Stage_succeeded s summary))
                 \<lparr>completedSet := insert s (completedSet j)\<rparr>)
      else None)"
| "orchestrate j (Fail s err) =
     (if \<not> is_terminal_status (job_status j) \<and> s \<in> started j \<and> s \<notin> completedSet j
      then Some (Transition j ''failed'' (Stage_failed s err))
      else None)"
| "orchestrate j (Finish video) =
     (if \<not> is_terminal_status (job_status j) \<and> IsTerminal (completedSet j)
      then Some (Transition j ''completed'' (Job_completed video))
      else None)"
| "orchestrate j Deadlock =
     (if \<not> is_terminal_status (job_status j) \<and> ReadyStages (completedSet j) (started j) = [] \<and>
         \<not> IsTerminal (completedSet j) \<and> started j - completedSet j = {}
      then Some (Transition j ''failed'' (Internal_error ''deadlock''))
      else None)"

text \<open>
  Modelled from the spec: a run of the missing orchestrator, the steps taken one after
  the other from a given job; stages in flight at the same time may finish in any order.
\<close>

fun run :: "orchestrator \<Rightarrow> event list \<Rightarrow> orchestrator option" where
  "run j [] = Some j"
| "run j (e # es) = (case orchestrate j e of None \<Rightarrow> None | Some j' \<Rightarrow> run j' es)"

text \<open>
  Modelled from the spec: the stages with a successful completion update in a log of the
  missing job store.
\<close>

definition succeeded_in :: "job_update list \<Rightarrow> stage set" where
  "succeeded_in log = {s. \<exists>st summary. (st, Stage_succeeded s summary) \<in> set log}"

text \<open>
  Modelled from the spec: the eight statuses of a job in the missing job store, as section
  3 lists them.
\<close>

definition job_statuses :: "string list" where
  "job_statuses =
     [''created'', ''script_generating'', ''speech_synthesizing'', ''visual_generating'',
      ''lipsync_processing'', ''assembling'', ''completed'', ''failed'']"

text \<open>
  Modelled from the spec: \<open>GetJob\<close> of the missing job store, which the status reader
  delegates to (sections 4.1 and 4.5): the current snapshot of the job, of which the
  status is kept here, with the full update history.
\<close>

definition GetJob :: "orchestrator \<Rightarrow> string \<times> job_update list" where
  "GetJob j = (job_status j, update_log j)"

text \<open>
  The fork-join property of a log, and the invariant of the orchestrator that yields it:
  a completed stage has its completion update, and while the job reports
  \<open>lipsync_processing\<close> both stages of the concurrent pair are completed.
\<close>

definition fork_join :: "job_update list \<Rightarrow> bool" where
  "fork_join log =
     (\<forall>i < length log. fst (log ! i) = ''lipsync_processing'' \<longrightarrow>
        speech_synthesis \<in> succeeded_in (take i log) \<and>
        visual_generation \<in> succeeded_in (take i log))"

definition orchestrator_inv :: "orchestrator \<Rightarrow> bool" where
  "orchestrator_inv j =
     (completedSet j \<subseteq> succeeded_in (update_log j) \<and>
      (job_status j = ''lipsync_processing'' \<longrightarrow>
         speech_synthesis \<in> completedSet j \<and> visual_generation \<in> completedSet j) \<and>
      fork_join (update_log j))"

section \<open>Example inputs\<close>

definition fetch_404 :: "FetchedJobData fetch" where
  "fetch_404 req = Inr (Response False 404 (Inl (Error ''Unexpected token'')))"

definition fetch_down :: "FetchedJobData fetch" where
  "fetch_down req = Inl (Error ''Failed to fetch'')"

definition job_completed :: JobDetails where
  "job_completed =
     \<lparr>job_id = ''j1'', status = ''completed'', created_at = ''2025-01-01T00:00:00Z'',
      updated_at = None, completed_at = None, JobDetails.error = None,
      result = Some ''Gravity pulls.'', persona_id = Some ''p1'', query = Some ''explain gravity'',
      video_available = Some True, video_url = Some ''/videos/j1.mp4''\<rparr>"

definition update_created :: JobUpdate where
  "update_created =
     \<lparr>id_num = 1, JobUpdate.job_id = ''j1'', JobUpdate.status = ''created'',
      message = ''Job created'', JobUpdate.created_at = ''2025-01-01T00:00:00Z''\<rparr>"

definition data_completed :: FetchedJobData where
  "data_completed = \<lparr>job = job_completed, updates = [update_created]\<rparr>"

definition fetch_completed :: "FetchedJobData fetch" where
  "fetch_completed req = Inr (Response True 200 (Inr data_completed))"

definition celebrity_example :: Celebrity where
  "celebrity_example = \<lparr>celeb_id = ''p1'', celeb_name = ''Ada'', celeb_image = ''/ada.png''\<rparr>"

definition fetch_created :: "JobCreationResponse fetch" where
  "fetch_created req =
     Inr (Response True 201
       (Inr \<lparr>JobCreationResponse.job_id = ''j1'', JobCreationResponse.status = ''created'',
             JobCreationResponse.error = None\<rparr>))"

definition dashboard_blank_topic :: dashboard where
  "dashboard_blank_topic =
     \<lparr>selectedCelebrity = Some celebrity_example, topic = ''   '', isSubmitting = False,
      loadError = None\<rparr>"

definition dashboard_no_persona :: dashboard where
  "dashboard_no_persona =
     \<lparr>selectedCelebrity = None, topic = ''explain gravity'', isSubmitting = False,
      loadError = None\<rparr>"

definition dashboard_ready :: dashboard where
  "dashboard_ready =
     \<lparr>selectedCelebrity = Some celebrity_example, topic = '' explain gravity '',
      isSubmitting = False, loadError = None\<rparr>"

definition job_running :: JobDetails where
  "job_running =
     job_completed\<lparr>status := ''visual_generating'', result := None,
                   video_available := None, video_url := None\<rparr>"

definition data_running :: FetchedJobData where
  "data_running = \<lparr>job = job_running, updates = [update_created]\<rparr>"

definition data_failed :: FetchedJobData where
  "data_failed =
     \<lparr>job = job_running\<lparr>status := ''failed'',
                        JobDetails.error := Some ''speech_synthesis: voice model unavailable''\<rparr>,
      updates = [update_created]\<rparr>"

definition data_empty_url :: FetchedJobData where
  "data_empty_url = \<lparr>job = job_completed\<lparr>video_url := Some []\<rparr>, updates = [update_created]\<rparr>"

definition provider_polled :: provider where
  "provider_polled =
     \<lparr>jobData = Some data_running, loading = False, error = None,
      lastFetchTime = [''j1'' \<mapsto> 0], isFetching = [''j1'' \<mapsto> False]\<rparr>"

definition provider_after_failure :: provider where
  "provider_after_failure =
     \<lparr>jobData = Some data_running, loading = False, error = Some ''Failed to fetch'',
      lastFetchTime = [''j1'' \<mapsto> 5000], isFetching = [''j1'' \<mapsto> False]\<rparr>"

definition provider_in_flight :: provider where
  "provider_in_flight =
     \<lparr>jobData = None, loading = True, error = None,
      lastFetchTime = [''j1'' \<mapsto> 1000], isFetching = [''j1'' \<mapsto> True]\<rparr>"

definition provider_fetched :: provider where
  "provider_fetched =
     \<lparr>jobData = Some data_completed, loading = False, error = None,
      lastFetchTime = [''j1'' \<mapsto> 1000], isFetching = [''j1'' \<mapsto> False]\<rparr>"

definition page_idle :: page where
  "page_idle = \<lparr>timeoutRef = None, isUnmountedRef = False\<rparr>"

definition page_armed :: page where
  "page_armed = \<lparr>timeoutRef = Some 5000, isUnmountedRef = False\<rparr>"

text \<open>A stand-in for the locale's rendering of a time: the clock part of the ISO text.\<close>

definition fmt_time :: "string \<Rightarrow> string" where
  "fmt_time created = take 8 (drop 11 created)"

definition example_events :: "event list" where
  "example_events =
     [Launch script_generation, Succeed script_generation ''a script'',
      Launch speech_synthesis, Launch visual_generation,
      Succeed visual_generation ''frames'', Succeed speech_synthesis ''audio'',
      Launch lipsync_processing]"

definition example_job :: orchestrator where
  "example_job =
     \<lparr>job_status = ''lipsync_processing'',
      completedSet = {script_generation, speech_synthesis, visual_generation},
      started = {script_generation, speech_synthesis, visual_generation, lipsync_processing},
      update_log =
        [(''created'', Job_created),
         (''script_generating'', Stage_started script_generation),
         (''script_generating'', Stage_succeeded script_generation ''a script''),
         (''speech_synthesizing'', Stage_started speech_synthesis),
         (''speech_synthesizing'', Stage_started visual_generation),
         (''speech_synthesizing'', Stage_succeeded visual_generation ''frames''),
         (''speech_synthesizing'', Stage_succeeded speech_synthesis ''audio''),
         (''lipsync_processing'', Stage_started lipsync_processing)]\<rparr>"

definition job_other :: JobDetails where
  "job_other = job_completed\<lparr>job_id := ''j0''\<rparr>"

definition data_other :: FetchedJobData where
  "data_other = \<lparr>job = job_other, updates = []\<rparr>"

definition provider_other :: provider where
  "provider_other =
     \<lparr>jobData = Some data_other, loading = False, error = None,
      lastFetchTime = [''j0'' \<mapsto> 0], isFetching = [''j0'' \<mapsto> False]\<rparr>"

definition fetch_running :: "FetchedJobData fetch" where
  "fetch_running req = Inr (Response True 200 (Inr data_running))"

section \<open>Properties of the job lookup\<close>

text \<open>
  C5.  \<open>getJobStatus\<close> issues one GET of the job's URL.  When the lookup answers with a
  response that is not OK, it raises an error (whose message carries the numeric status)
  and returns no data; when the response is OK and its body is the pair of the job
  snapshot and the update list, it returns exactly that pair.
\<close>

theorem getJobStatus_result:
  fixes fetch :: "FetchedJobData fetch"
  assumes "fetch (GET (API_BASE_URL env @ ''/jobs/'' @ jobId)) = Inr response"
  shows "fst (getJobStatus env fetch jobId) = [GET (API_BASE_URL env @ ''/jobs/'' @ jobId)] \<and>
         (\<not> ok response \<longrightarrow>
            snd (getJobStatus env fetch jobId) =
              Inl (Error (''Failed to fetch job status: '' @ string_of_nat (status_code response)))) \<and>
         (ok response \<longrightarrow>
            (\<forall>j us. json response = Inr \<lparr>job = j, updates = us\<rparr> \<longrightarrow>
               snd (getJobStatus env fetch jobId) = Inr \<lparr>job = j, updates = us\<rparr>))"
  using assms by (simp add: getJobStatus_def Let_def)

theorem getJobStatus_result_witness:
  "snd (getJobStatus None fetch_404 ''j1'') = Inl (Error ''Failed to fetch job status: 404'') \<and>
   snd (getJobStatus None fetch_completed ''j1'') = Inr data_completed"
  using getJobStatus_result [of fetch_404 None "''j1''"
          "Response False 404 (Inl (Error ''Unexpected token''))"]
        getJobStatus_result [of fetch_completed None "''j1''"
          "Response True 200 (Inr data_completed)"]
  by (simp add: fetch_404_def fetch_completed_def data_completed_def string_of_nat.simps
        digit_char_def)

text \<open>
  C10.  \<open>getJobWithUpdates\<close> and \<open>getJobStatus\<close> issue the same request and return the same
  value whenever either returns one: the parsed body of an OK response, unchanged.  When
  \<open>fetch\<close> rejects, or parsing the body does, both raise that same error.  On a response
  that is not OK both raise an error, and the two differ in the text of its message only.
\<close>

theorem getJobWithUpdates_same:
  "fst (getJobWithUpdates env fetch jobId) = fst (getJobStatus env fetch jobId) \<and>
   (\<forall>v. snd (getJobWithUpdates env fetch jobId) = Inr v \<longleftrightarrow>
        snd (getJobStatus env fetch jobId) = Inr v) \<and>
   (case fetch (GET (API_BASE_URL env @ ''/jobs/'' @ jobId)) of
      Inl e \<Rightarrow> snd (getJobWithUpdates env fetch jobId) = Inl e \<and>
               snd (getJobStatus env fetch jobId) = Inl e
    | Inr response \<Rightarrow>
        if ok response
        then snd (getJobWithUpdates env fetch jobId) = json response \<and>
             snd (getJobStatus env fetch jobId) = json response
        else snd (getJobWithUpdates env fetch jobId) =
               Inl (Error (''Failed to fetch job with updates: '' @
                           string_of_nat (status_code response))) \<and>
             snd (getJobStatus env fetch jobId) =
               Inl (Error (''Failed to fetch job status: '' @
                           string_of_nat (status_code response))))"
  by (simp add: getJobWithUpdates_def getJobStatus_def Let_def split: sum.splits)

theorem getJobWithUpdates_same_witness:
  "getJobWithUpdates None fetch_completed ''j1'' = getJobStatus None fetch_completed ''j1'' \<and>
   snd (getJobStatus None fetch_completed ''j1'') = Inr data_completed \<and>
   snd (getJobWithUpdates None fetch_404 ''j1'') =
     Inl (Error ''Failed to fetch job with updates: 404'') \<and>
   snd (getJobStatus None fetch_404 ''j1'') = Inl (Error ''Failed to fetch job status: 404'') \<and>
   getJobWithUpdates None fetch_down ''j1'' = getJobStatus None fetch_down ''j1''"
  using getJobWithUpdates_same [of None fetch_completed "''j1''"]
        getJobWithUpdates_same [of None fetch_404 "''j1''"]
        getJobWithUpdates_same [of None fetch_down "''j1''"]
  by (simp add: fetch_completed_def fetch_404_def fetch_down_def prod_eq_iff
        string_of_nat.simps digit_char_def)

section \<open>Properties of the submission\<close>

lemma trim_white:
  assumes "\<forall>c \<in> set s. is_white_space c"
  shows "trim s = []"
proof -
  from assms have "dropWhile is_white_space s = []" by simp
  then show ?thesis by (simp only: trim_def rev.simps dropWhile.simps)
qed

text \<open>
  C3.  When no persona is selected, or the topic is empty or consists of white space
  only, \<open>handleGenerate\<close> returns at once: it issues no request, so no job is created,
  navigates nowhere and leaves both states as they were.
\<close>

theorem handleGenerate_invalid:
  assumes "selectedCelebrity dash = None \<or> (\<forall>c \<in> set (topic dash). is_white_space c)"
  shows "handleGenerate env fetch (dash, st) = (dash, st, [], None)"
  using assms by (auto simp add: handleGenerate_def trim_white)

theorem handleGenerate_invalid_witness:
  "handleGenerate None fetch_created (dashboard_blank_topic, initial_provider) =
     (dashboard_blank_topic, initial_provider, [], None) \<and>
   handleGenerate None fetch_created (dashboard_no_persona, initial_provider) =
     (dashboard_no_persona, initial_provider, [], None) \<and>
   fst (snd (snd (handleGenerate None fetch_created (dashboard_ready, initial_provider)))) =
     [POST ''http://localhost:8000/api/jobs'' ''explain gravity'' ''p1'']"
  using handleGenerate_invalid [of dashboard_blank_topic None fetch_created initial_provider]
        handleGenerate_invalid [of dashboard_no_persona None fetch_created initial_provider]
  by (simp add: dashboard_blank_topic_def dashboard_no_persona_def dashboard_ready_def
        is_white_space_def handleGenerate_def createNewJob_def createJob_def clearJob_def
        fetch_created_def trim_def API_BASE_URL_def or_else_def celebrity_example_def)

section \<open>Properties of \<open>fetchJobById\<close>\<close>

lemma fetchJobById_hit:
  assumes "lastFetchTime st jobId = Some t0" and "now - t0 < 3000"
    and "JobDetails.job_id (job d) = jobId"
  shows "fetchJobById (Some d) env fetch st jobId now nowISO = (st, [], Inr d)"
  using assms
  by (auto simp add: fetchJobById_def fetchJobById_begin_def obj_get_def Let_def
        split: option.splits)

lemma fetchJobById_network:
  assumes "fetchJobById c env fetch st jobId t0 nowISO = (st1, r # rs, Inr d)"
  shows "jobData st1 = Some d \<and> lastFetchTime st1 jobId = Some t0"
  using assms
  by (auto simp add: fetchJobById_def fetchJobById_begin_def fetchJobById_settle_def
        getJobStatus_def obj_get_def obj_set_def Let_def
        split: if_splits sum.splits option.splits looked_up.splits)

text \<open>
  C9, as stated, fails.  The job was polled at time 0 and the provider holds that
  snapshot.  A call at 5000 goes to the network and fails: it raises the error, and the
  held snapshot stays.  A second call 1000 ms later, with held data for the same job,
  issues no request and returns the held snapshot, which is not the result of the first
  call.
\<close>

theorem fetchJobById_repeat_counterexample:
  "fetchJobById (Some data_running) None fetch_down provider_polled ''j1'' 5000 ''t5'' =
     (provider_after_failure, [GET ''http://localhost:8000/api/jobs/j1''],
      Inl (Error ''Failed to fetch'')) \<and>
   jobData provider_after_failure = Some data_running \<and>
   JobDetails.job_id (job data_running) = ''j1'' \<and>
   (6000 :: int) - 5000 < 3000 \<and>
   fetchJobById (jobData provider_after_failure) None fetch_completed provider_after_failure
     ''j1'' 6000 ''t6'' = (provider_after_failure, [], Inr data_running)"
  by (simp add: fetchJobById_def fetchJobById_begin_def fetchJobById_settle_def getJobStatus_def
        provider_polled_def provider_after_failure_def fetch_down_def data_running_def
        job_running_def job_completed_def API_BASE_URL_def or_else_def obj_get_def obj_set_def
        object_prototype_keys_def)

text \<open>
  C9, amended.  A call of \<open>fetchJobById\<close> made less than 3000 ms after the time kept in
  \<open>lastFetchTime\<close> for the job, which is the start of the last call for it that went to
  the network, by a callback holding data for that job, returns the held data, issues no
  request and changes no state.  After a call that went to the network and returned a
  snapshot of the job, a call within 3000 ms by the callback of the new state returns
  that same snapshot, again without a request.
\<close>

theorem fetchJobById_cached:
  "(lastFetchTime st jobId = Some t0 \<and> now - t0 < 3000 \<and> JobDetails.job_id (job d) = jobId
      \<longrightarrow> fetchJobById (Some d) env fetch st jobId now nowISO = (st, [], Inr d)) \<and>
   (fetchJobById c0 env0 fetch0 st0 jobId t0 nowISO0 = (st1, [r], Inr d) \<and>
    JobDetails.job_id (job d) = jobId \<and> t1 - t0 < 3000
      \<longrightarrow> fetchJobById (jobData st1) env1 fetch1 st1 jobId t1 nowISO1 = (st1, [], Inr d))"
proof (intro conjI impI)
  assume "lastFetchTime st jobId = Some t0 \<and> now - t0 < 3000 \<and> JobDetails.job_id (job d) = jobId"
  then show "fetchJobById (Some d) env fetch st jobId now nowISO = (st, [], Inr d)"
    by (simp add: fetchJobById_hit)
next
  assume a: "fetchJobById c0 env0 fetch0 st0 jobId t0 nowISO0 = (st1, [r], Inr d) \<and>
    JobDetails.job_id (job d) = jobId \<and> t1 - t0 < 3000"
  then have "jobData st1 = Some d \<and> lastFetchTime st1 jobId = Some t0"
    using fetchJobById_network by blast
  with a show "fetchJobById (jobData st1) env1 fetch1 st1 jobId t1 nowISO1 = (st1, [], Inr d)"
    by (simp add: fetchJobById_hit)
qed

theorem fetchJobById_cached_witness:
  "lastFetchTime provider_polled ''j1'' = Some 0 \<and> (2000 :: int) - 0 < 3000 \<and>
   JobDetails.job_id (job data_running) = ''j1'' \<and>
   fetchJobById (Some data_running) None fetch_down provider_polled ''j1'' 2000 ''t2'' =
     (provider_polled, [], Inr data_running) \<and>
   fetchJobById None None fetch_completed initial_provider ''j1'' 1000 ''t1'' =
     (provider_fetched, [GET ''http://localhost:8000/api/jobs/j1''], Inr data_completed) \<and>
   JobDetails.job_id (job data_completed) = ''j1'' \<and> (3500 :: int) - 1000 < 3000 \<and>
   fetchJobById (jobData provider_fetched) None fetch_down provider_fetched ''j1'' 3500 ''t3'' =
     (provider_fetched, [], Inr data_completed)"
proof -
  have h1: "lastFetchTime provider_polled ''j1'' = Some 0 \<and> (2000 :: int) - 0 < 3000 \<and>
      JobDetails.job_id (job data_running) = ''j1''"
    by (simp add: provider_polled_def data_running_def job_running_def job_completed_def)
  have h2: "fetchJobById None None fetch_completed initial_provider ''j1'' 1000 ''t1'' =
      (provider_fetched, [GET ''http://localhost:8000/api/jobs/j1''], Inr data_completed) \<and>
      JobDetails.job_id (job data_completed) = ''j1'' \<and> (3500 :: int) - 1000 < 3000"
    by (simp add: fetchJobById_def fetchJobById_begin_def fetchJobById_settle_def
          getJobStatus_def initial_provider_def provider_fetched_def fetch_completed_def
          data_completed_def job_completed_def API_BASE_URL_def or_else_def obj_get_def
          obj_set_def object_prototype_keys_def)
  from h1 h2
    fetchJobById_cached [where st = provider_polled and jobId = "''j1''" and ?t0.0 = 0
      and now = 2000 and d = data_running and env = None and fetch = fetch_down
      and nowISO = "''t2''"]
    fetchJobById_cached [where ?c0.0 = None and ?env0.0 = None and ?fetch0.0 = fetch_completed
      and ?st0.0 = initial_provider and jobId = "''j1''" and ?t0.0 = 1000
      and ?nowISO0.0 = "''t1''" and ?st1.0 = provider_fetched
      and r = "GET ''http://localhost:8000/api/jobs/j1''" and d = data_completed
      and ?t1.0 = 3500 and ?env1.0 = None and ?fetch1.0 = fetch_down and ?nowISO1.0 = "''t3''"]
  show ?thesis by blast
qed

text \<open>
  The snapshot that \<open>fetchJobById\<close> makes up.  It is returned, with the status \<open>pending\<close>
  and without a request, when the callback holds no data and the lookup in \<open>isFetching\<close>
  is truthy: while a fetch of the job is in flight, and at a job id that names a property
  of \<open>Object.prototype\<close>.  It is not stored in the provider's state.
\<close>

lemma fetchJobById_placeholder:
  "fetchJobById_begin None initial_provider ''j1'' 1000 ''t1'' = (provider_in_flight, None) \<and>
   fetchJobById None None fetch_completed provider_in_flight ''j1'' 1200 ''t2'' =
     (provider_in_flight, [], Inr (placeholder ''j1'' ''t2'')) \<and>
   fetchJobById None None fetch_completed initial_provider ''constructor'' 1200 ''t2'' =
     (initial_provider, [], Inr (placeholder ''constructor'' ''t2'')) \<and>
   JobDetails.status (job (placeholder ''j1'' ''t2'')) = ''pending''"
  by (simp add: fetchJobById_def fetchJobById_begin_def initial_provider_def
        provider_in_flight_def placeholder_def obj_get_def obj_set_def
        object_prototype_keys_def)

section \<open>Properties of the polling\<close>

text \<open>
  Which job data \<open>scheduleFetch\<close> reads.  \<open>jobData\<close> is a constant of the render that
  created the function.  The effect that starts the polling runs when the job id changes
  and at no other time, and each timer callback calls the \<open>scheduleFetch\<close> that armed it;
  so the whole chain of polls reads the \<open>jobData\<close> of the render in which the effect ran,
  not the snapshot that was just fetched.
\<close>

text \<open>
  C4 does not hold of the code.  The page is entered with no job data, as it is after a
  submission.  The first fetch returns a snapshot whose status is \<open>completed\<close> and stores
  it in the provider, and a timer of 5000 ms is armed all the same; when the timer fires,
  the job is fetched again and the timer is armed again.
\<close>

theorem polling_continues_after_completed:
  "mount_effect None None fetch_completed ''j1'' (page_idle, initial_provider) 1000 ''t1'' =
     (page_armed, provider_fetched, [GET ''http://localhost:8000/api/jobs/j1'']) \<and>
   map_option (\<lambda>d. JobDetails.status (job d)) (jobData provider_fetched) = Some ''completed'' \<and>
   timer_callback None None fetch_completed ''j1'' (page_armed, provider_fetched) 6000 ''t6'' =
     (page_armed, provider_fetched\<lparr>lastFetchTime := [''j1'' \<mapsto> 6000]\<rparr>,
      [GET ''http://localhost:8000/api/jobs/j1''])"
  by (simp add: mount_effect_def timer_callback_def fetchJobById_def fetchJobById_begin_def
        fetchJobById_settle_def getJobStatus_def after_fetch_def scheduleFetch_def
        page_idle_def page_armed_def initial_provider_def provider_fetched_def
        fetch_completed_def data_completed_def job_completed_def API_BASE_URL_def or_else_def
        obj_get_def obj_set_def object_prototype_keys_def)

text \<open>
  The same reading of stale data, the other way round: the page is entered for a running
  job while the provider still holds the completed snapshot of another job.  The fetch
  returns a snapshot whose status is \<open>visual_generating\<close>, and no timer is armed: the job
  is never polled again.
\<close>

lemma polling_not_started_over_stale_data:
  "JobDetails.status (job data_running) = ''visual_generating'' \<and>
   fst (mount_effect (Some data_other) None fetch_running ''j1'' (page_idle, provider_other)
          1000 ''t1'') = page_idle \<and>
   timeoutRef page_idle = None \<and>
   jobData (fst (snd (mount_effect (Some data_other) None fetch_running ''j1''
                        (page_idle, provider_other) 1000 ''t1''))) = Some data_running"
  by (simp add: mount_effect_def fetchJobById_def fetchJobById_begin_def
        fetchJobById_settle_def getJobStatus_def after_fetch_def scheduleFetch_def clearJob_def
        page_idle_def provider_other_def data_other_def job_other_def
        fetch_running_def data_running_def job_running_def job_completed_def
        API_BASE_URL_def or_else_def obj_get_def obj_set_def object_prototype_keys_def)

section \<open>Properties of the result view\<close>

lemma tags_getStatusIcon: "set (tags (getStatusIcon s)) \<subseteq> component_tags"
  by (simp add: getStatusIcon_def Let_def component_tags_def)

lemma tags_update_row: "set (tags (update_row fmt u)) \<subseteq> component_tags"
  using tags_getStatusIcon [of "JobUpdate.status u"]
  by (simp add: update_row_def component_tags_def)

lemma tags_update_rows: "(\<Union>u\<in>set us. set (tags (update_row fmt u))) \<subseteq> component_tags"
  using tags_update_row by blast

lemma tags_UpdatesTimeline:
  "(\<Union>n\<in>set (UpdatesTimeline fmt us title). set (tags n)) \<subseteq> component_tags"
proof (cases "length us = 0")
  case True
  then show ?thesis by (simp add: UpdatesTimeline_def)
next
  case False
  have "''div'' \<in> component_tags" "''h3'' \<in> component_tags"
    by (simp_all add: component_tags_def)
  with False tags_update_rows [where us = us and fmt = fmt] show ?thesis
    by (simp add: UpdatesTimeline_def)
qed

lemma tags_JobIdDisplay: "(\<Union>n\<in>set (JobIdDisplay i). set (tags n)) \<subseteq> component_tags"
  by (simp add: JobIdDisplay_def component_tags_def)

lemma no_video_component: "''video'' \<notin> component_tags" "''Video'' \<notin> component_tags"
  by (simp_all add: component_tags_def)

lemma no_video_UpdatesTimeline:
  "n \<in> set (UpdatesTimeline fmt us title) \<Longrightarrow>
     ''video'' \<notin> set (tags n) \<and> ''Video'' \<notin> set (tags n)"
  using tags_UpdatesTimeline [where us = us and fmt = fmt and title = title] no_video_component
  by blast

lemma no_video_JobIdDisplay:
  "n \<in> set (JobIdDisplay i) \<Longrightarrow> ''video'' \<notin> set (tags n) \<and> ''Video'' \<notin> set (tags n)"
  using tags_JobIdDisplay [where i = i] no_video_component by blast

lemma no_video_nodes:
  "n \<in> set (JobIdDisplay i) \<Longrightarrow> ''video'' \<in> set (tags n) \<longleftrightarrow> False"
  "n \<in> set (UpdatesTimeline fmt us title) \<Longrightarrow> ''video'' \<in> set (tags n) \<longleftrightarrow> False"
  "n \<in> set (JobIdDisplay i) \<Longrightarrow> ''Video'' \<in> set (tags n) \<longleftrightarrow> False"
  "n \<in> set (UpdatesTimeline fmt us title) \<Longrightarrow> ''Video'' \<in> set (tags n) \<longleftrightarrow> False"
  using no_video_JobIdDisplay no_video_UpdatesTimeline by blast+

text \<open>
  C2.  For a job snapshot whose status is \<open>failed\<close>, whatever the loading flag and the
  error of the context, the component renders a view that contains no \<open>video\<close> element
  and shows, after the label \<open>Reason:\<close>, the job's error string, or the fixed text
  \<open>Unknown error occurred\<close> when the job has no error string (or an empty one).
\<close>

theorem JobResult_failed:
  assumes "JobDetails.status (job d) = ''failed''"
  shows "\<exists>view. JobResult fmt (Some d) loading' error' currentJobId = Some view \<and>
           ''video'' \<notin> set (tags view) \<and>
           (\<exists>before after. texts view =
              before @ [''Reason: '',
                        (case JobDetails.error (job d) of
                           None \<Rightarrow> ''Unknown error occurred''
                         | Some e \<Rightarrow> if e = [] then ''Unknown error occurred'' else e)] @ after)"
proof -
  let ?reason = "case JobDetails.error (job d) of
                   None \<Rightarrow> ''Unknown error occurred''
                 | Some e \<Rightarrow> if e = [] then ''Unknown error occurred'' else e"
  let ?view = "Elem ''div'' []
                 [Elem ''div'' []
                    [Elem ''div'' []
                       [Elem ''AlertCircle'' [] [],
                        Elem ''h3'' [] [Text ''Generation Failed'']],
                     Elem ''p'' [] [Text (''We couldn'' @ [CHR 0x27] @ ''t generate your explanation.'')]],
                  Elem ''div'' []
                    ([Elem ''p'' []
                        [Text ''Reason: '',
                         Text (or_else (JobDetails.error (job d)) ''Unknown error occurred'')]] @
                     JobIdDisplay (JobDetails.job_id (job d)) @
                     UpdatesTimeline fmt (updates d) ''Attempt Details''),
                  Elem ''div'' [] [Elem ''Button'' [] [Text ''Try Again'']]]"
  have v: "JobResult fmt (Some d) loading' error' currentJobId = Some ?view"
    using assms by (simp add: JobResult_def Let_def)
  have r: "or_else (JobDetails.error (job d)) ''Unknown error occurred'' = ?reason"
    by (simp add: or_else_def)
  have t: "''video'' \<notin> set (tags ?view)"
    by (simp add: no_video_nodes)
  have x: "texts ?view =
             [''Generation Failed'', ''We couldn'' @ [CHR 0x27] @ ''t generate your explanation.''] @
             [''Reason: '', ?reason] @
             (concat (map texts (JobIdDisplay (JobDetails.job_id (job d)))) @
              concat (map texts (UpdatesTimeline fmt (updates d) ''Attempt Details'')) @
              [''Try Again''])"
    by (simp add: r)
  from v t x show ?thesis by blast
qed

theorem JobResult_failed_witness:
  "JobDetails.status (job data_failed) = ''failed'' \<and>
   (\<exists>view. JobResult fmt_time (Some data_failed) False None ''j1'' = Some view \<and>
      ''video'' \<notin> set (tags view) \<and>
      (\<exists>before after. texts view =
         before @ [''Reason: '', ''speech_synthesis: voice model unavailable''] @ after))"
  using JobResult_failed [of data_failed fmt_time False None "''j1''"]
  by (simp add: data_failed_def job_running_def job_completed_def)

text \<open>
  C8, as stated, fails.  A completed job with \<open>video_available\<close> true and a \<open>video_url\<close>
  that is not null but the empty string gets no video player: the view has no \<open>video\<close>
  element and shows the text of the placeholder.
\<close>

theorem JobResult_video_counterexample:
  "JobDetails.status (job data_empty_url) = ''completed'' \<and>
   video_available (job data_empty_url) = Some True \<and>
   video_url (job data_empty_url) \<noteq> None \<and>
   (case JobResult fmt_time (Some data_empty_url) False None ''j1'' of
      None \<Rightarrow> False
    | Some view \<Rightarrow> ''video'' \<notin> set (tags view) \<and>
        ''Video is not available for this explanation.'' \<in> set (texts view))"
  by (simp add: data_empty_url_def job_completed_def JobResult_def JobIdDisplay_def
        no_video_nodes)

text \<open>
  C8, amended.  For a job snapshot whose status is \<open>completed\<close> the component renders a
  view, and that view contains a \<open>video\<close> element if and only if \<open>video_available\<close> is true
  and \<open>video_url\<close> is a non-empty string; otherwise it contains the placeholder, the
  \<open>Video\<close> icon with the text that the video is not available.
\<close>

theorem JobResult_completed:
  assumes "JobDetails.status (job d) = ''completed''"
  shows "\<exists>view. JobResult fmt (Some d) loading' error' currentJobId = Some view \<and>
           (''video'' \<in> set (tags view) \<longleftrightarrow>
              video_available (job d) = Some True \<and>
              (\<exists>u. video_url (job d) = Some u \<and> u \<noteq> [])) \<and>
           (''Video'' \<in> set (tags view) \<longleftrightarrow>
              \<not> (video_available (job d) = Some True \<and>
                 (\<exists>u. video_url (job d) = Some u \<and> u \<noteq> []))) \<and>
           (\<not> (video_available (job d) = Some True \<and>
               (\<exists>u. video_url (job d) = Some u \<and> u \<noteq> [])) \<longrightarrow>
              ''Video is not available for this explanation.'' \<in> set (texts view))"
proof -
  define media where "media =
    (case (if video_available (job d) = Some True
           then (case video_url (job d) of
                   None \<Rightarrow> None
                 | Some u \<Rightarrow> if u = [] then None else Some (''http://127.0.0.1:8000'' @ u))
           else None) of
       Some src \<Rightarrow>
         Elem ''div'' []
           [Elem ''video''
              [(''controls'', ''true''), (''width'', ''100%''), (''src'', src),
               (''autoPlay'', ''true''), (''playsInline'', ''true'')]
              [Text ''Your browser does not support the video tag.'']]
     | None \<Rightarrow>
         Elem ''div'' []
           [Elem ''Video'' [(''size'', ''40'')] [],
            Elem ''p'' [] [Text ''Video is not available for this explanation.'']])"
  define rest where "rest =
    (case result (job d) of
       None \<Rightarrow> []
     | Some r \<Rightarrow>
         if r = [] then []
         else [Elem ''div'' []
                 [Elem ''label'' [(''htmlFor'', ''explanationText'')]
                    [Text ''Generated Explanation Text''],
                  Elem ''Textarea''
                    [(''id'', ''explanationText''), (''value'', r),
                     (''readOnly'', ''true''), (''rows'', ''10'')] []]]) @
    JobIdDisplay (JobDetails.job_id (job d)) @
    UpdatesTimeline fmt (updates d) ''Generation Timeline'' @
    [Elem ''div'' [] [Elem ''Button'' [] [Text ''Generate Another'']]]"
  let ?cond = "video_available (job d) = Some True \<and>
               (\<exists>u. video_url (job d) = Some u \<and> u \<noteq> [])"
  have v: "JobResult fmt (Some d) loading' error' currentJobId =
             Some (Elem ''div'' [] (media # rest))"
    using assms by (simp add: JobResult_def Let_def media_def rest_def)
  have r1: "''video'' \<notin> (\<Union>n\<in>set rest. set (tags n))"
    by (cases "result (job d)") (simp_all add: rest_def no_video_nodes)
  have r2: "''Video'' \<notin> (\<Union>n\<in>set rest. set (tags n))"
    by (cases "result (job d)") (simp_all add: rest_def no_video_nodes)
  have m1: "''video'' \<in> set (tags media) \<longleftrightarrow> ?cond"
    by (simp add: media_def split: option.splits)
  have m2: "''Video'' \<in> set (tags media) \<longleftrightarrow> \<not> ?cond"
    by (simp add: media_def split: option.splits)
  have m3: "\<not> ?cond \<longrightarrow>
              ''Video is not available for this explanation.'' \<in> set (texts media)"
    by (simp add: media_def split: option.splits)
  have t1: "''video'' \<in> set (tags (Elem ''div'' [] (media # rest))) \<longleftrightarrow> ?cond"
    using r1 m1 by simp
  have t2: "''Video'' \<in> set (tags (Elem ''div'' [] (media # rest))) \<longleftrightarrow> \<not> ?cond"
    using r2 m2 by simp
  have t3: "\<not> ?cond \<longrightarrow> ''Video is not available for this explanation.''
              \<in> set (texts (Elem ''div'' [] (media # rest)))"
    using m3 by simp
  from v t1 t2 t3 show ?thesis by blast
qed

theorem JobResult_completed_witness:
  "JobDetails.status (job data_completed) = ''completed'' \<and>
   (\<exists>view. JobResult fmt_time (Some data_completed) False None ''j1'' = Some view \<and>
      ''video'' \<in> set (tags view) \<and> ''Video'' \<notin> set (tags view)) \<and>
   JobDetails.status (job data_empty_url) = ''completed'' \<and>
   (\<exists>view. JobResult fmt_time (Some data_empty_url) False None ''j1'' = Some view \<and>
      ''video'' \<notin> set (tags view) \<and> ''Video'' \<in> set (tags view) \<and>
      ''Video is not available for this explanation.'' \<in> set (texts view))"
  using JobResult_completed [of data_completed fmt_time False None "''j1''"]
        JobResult_completed [of data_empty_url fmt_time False None "''j1''"]
  by (simp add: data_completed_def data_empty_url_def job_completed_def)

section \<open>Properties of the orchestrator\<close>

lemma succeeded_in_snoc:
  "succeeded_in (log @ [(st, m)]) =
     succeeded_in log \<union> (case m of Stage_succeeded s summary \<Rightarrow> {s} | _ \<Rightarrow> {})"
  by (auto simp add: succeeded_in_def split: update_message.splits)

lemma fork_join_snoc:
  "fork_join (log @ [(st, m)]) \<longleftrightarrow>
     fork_join log \<and>
     (st = ''lipsync_processing'' \<longrightarrow>
        speech_synthesis \<in> succeeded_in log \<and> visual_generation \<in> succeeded_in log)"
  by (auto simp add: fork_join_def nth_append less_Suc_eq)

lemma in_progress_lipsync:
  "in_progress s = ''lipsync_processing'' \<longleftrightarrow> s = lipsync_processing"
  by (cases s) simp_all

lemma ready_dependencies:
  "s \<in> set (ReadyStages c st) \<Longrightarrow> set (dependencies s) \<subseteq> c"
  by (simp add: ReadyStages_def)

lemma inv_Create: "orchestrator_inv Create"
  by (simp add: orchestrator_inv_def Create_def fork_join_def succeeded_in_def)

lemma inv_orchestrate:
  assumes "orchestrator_inv j" and "orchestrate j e = Some j'"
  shows "orchestrator_inv j'"
proof (cases e)
  case (Launch s)
  with assms(2) have ready: "s \<in> set (ReadyStages (completedSet j) (started j))"
    and j': "j' = (Transition j
                    (if started j - completedSet j = {} then in_progress s else job_status j)
                    (Stage_started s))\<lparr>started := insert s (started j)\<rparr>"
    by (simp_all split: if_splits)
  from ready have deps: "set (dependencies s) \<subseteq> completedSet j"
    by (rule ready_dependencies)
  have "in_progress s = ''lipsync_processing'' \<Longrightarrow>
          speech_synthesis \<in> completedSet j \<and> visual_generation \<in> completedSet j"
    using deps by (simp add: in_progress_lipsync)
  with assms(1) show ?thesis
    unfolding j' orchestrator_inv_def Transition_def
    by (auto simp add: fork_join_snoc succeeded_in_snoc)
next
  case (Succeed s summary)
  with assms(2) have j': "j' = (Transition j (job_status j) (Stage_succeeded s summary))
                               \<lparr>completedSet := insert s (completedSet j)\<rparr>"
    by (simp split: if_splits)
  from assms(1) show ?thesis
    unfolding j' orchestrator_inv_def Transition_def
    by (auto simp add: fork_join_snoc succeeded_in_snoc)
next
  case (Fail s err)
  with assms(2) have j': "j' = Transition j ''failed'' (Stage_failed s err)"
    by (simp split: if_splits)
  from assms(1) show ?thesis
    unfolding j' orchestrator_inv_def Transition_def
    by (auto simp add: fork_join_snoc succeeded_in_snoc)
next
  case (Finish video)
  with assms(2) have j': "j' = Transition j ''completed'' (Job_completed video)"
    by (simp split: if_splits)
  from assms(1) show ?thesis
    unfolding j' orchestrator_inv_def Transition_def
    by (auto simp add: fork_join_snoc succeeded_in_snoc)
next
  case Deadlock
  with assms(2) have j': "j' = Transition j ''failed'' (Internal_error ''deadlock'')"
    by (simp split: if_splits)
  from assms(1) show ?thesis
    unfolding j' orchestrator_inv_def Transition_def
    by (auto simp add: fork_join_snoc succeeded_in_snoc)
qed

lemma inv_run:
  "orchestrator_inv j \<Longrightarrow> run j es = Some j' \<Longrightarrow> orchestrator_inv j'"
proof (induction es arbitrary: j)
  case Nil
  then show ?case by simp
next
  case (Cons e es)
  then show ?case
    by (auto split: option.splits dest: inv_orchestrate)
qed

text \<open>
  C6.  In the log of any job the orchestrator has run from its creation, every update
  with the status \<open>lipsync_processing\<close> comes after a successful completion update of
  \<open>speech_synthesis\<close> and after one of \<open>visual_generation\<close>.
\<close>

theorem lipsync_after_both:
  assumes "run Create es = Some j"
  shows "\<forall>i < length (update_log j).
           fst (update_log j ! i) = ''lipsync_processing'' \<longrightarrow>
             speech_synthesis \<in> succeeded_in (take i (update_log j)) \<and>
             visual_generation \<in> succeeded_in (take i (update_log j))"
  using inv_run [OF inv_Create assms]
  by (simp add: orchestrator_inv_def fork_join_def)

theorem lipsync_after_both_witness:
  "run Create example_events = Some example_job \<and>
   fst (update_log example_job ! 7) = ''lipsync_processing'' \<and>
   speech_synthesis \<in> succeeded_in (take 7 (update_log example_job)) \<and>
   visual_generation \<in> succeeded_in (take 7 (update_log example_job))"
proof -
  have r: "run Create example_events = Some example_job"
    by (simp add: example_events_def example_job_def Create_def Transition_def ReadyStages_def
          all_stages_def is_terminal_status_def insert_commute)
  have l: "7 < length (update_log example_job) \<and>
           fst (update_log example_job ! 7) = ''lipsync_processing''"
    by (simp add: example_job_def)
  from lipsync_after_both [OF r] l r show ?thesis by blast
qed

lemma in_progress_status: "in_progress s \<in> set job_statuses"
  by (cases s) (simp_all add: job_statuses_def)

lemma status_orchestrate:
  assumes "job_status j \<in> set job_statuses"
    and "\<forall>u \<in> set (update_log j). fst u \<in> set job_statuses"
    and "orchestrate j e = Some j'"
  shows "job_status j' \<in> set job_statuses \<and>
         (\<forall>u \<in> set (update_log j'). fst u \<in> set job_statuses)"
proof (cases e)
  case (Launch s)
  with assms(3) have "j' = (Transition j
                    (if started j - completedSet j = {} then in_progress s else job_status j)
                    (Stage_started s))\<lparr>started := insert s (started j)\<rparr>"
    by (simp split: if_splits)
  with assms(1,2) in_progress_status [of s] show ?thesis
    by (simp add: Transition_def)
next
  case (Succeed s summary)
  with assms(3) have "j' = (Transition j (job_status j) (Stage_succeeded s summary))
                               \<lparr>completedSet := insert s (completedSet j)\<rparr>"
    by (simp split: if_splits)
  with assms(1,2) show ?thesis
    by (simp add: Transition_def)
next
  case (Fail s err)
  with assms(3) have "j' = Transition j ''failed'' (Stage_failed s err)"
    by (simp split: if_splits)
  with assms(1,2) show ?thesis
    by (simp add: Transition_def job_statuses_def)
next
  case (Finish video)
  with assms(3) have "j' = Transition j ''completed'' (Job_completed video)"
    by (simp split: if_splits)
  with assms(1,2) show ?thesis
    by (simp add: Transition_def job_statuses_def)
next
  case Deadlock
  with assms(3) have "j' = Transition j ''failed'' (Internal_error ''deadlock'')"
    by (simp split: if_splits)
  with assms(1,2) show ?thesis
    by (simp add: Transition_def job_statuses_def)
qed

lemma status_run:
  "job_status j \<in> set job_statuses \<Longrightarrow>
   \<forall>u \<in> set (update_log j). fst u \<in> set job_statuses \<Longrightarrow>
   run j es = Some j' \<Longrightarrow>
   job_status j' \<in> set job_statuses \<and> (\<forall>u \<in> set (update_log j'). fst u \<in> set job_statuses)"
proof (induction es arbitrary: j)
  case Nil
  then show ?case by simp
next
  case (Cons e es)
  from Cons.prems(3) obtain j1 where s: "orchestrate j e = Some j1" and r: "run j1 es = Some j'"
    by (auto split: option.splits)
  from status_orchestrate [OF Cons.prems(1) Cons.prems(2) s]
  have "job_status j1 \<in> set job_statuses"
    and "\<forall>u \<in> set (update_log j1). fst u \<in> set job_statuses"
    by simp_all
  then show ?case using r by (rule Cons.IH)
qed

text \<open>
  C1.  Whatever the orchestrator has done to a job since its creation, the snapshot that
  \<open>GetJob\<close> returns carries one of the eight statuses of section 3, and so does every
  update of its history.
\<close>

theorem snapshot_status:
  assumes "run Create es = Some j"
  shows "fst (GetJob j) \<in> set job_statuses \<and>
         (\<forall>u \<in> set (snd (GetJob j)). fst u \<in> set job_statuses)"
proof -
  have "job_status Create \<in> set job_statuses"
    and "\<forall>u \<in> set (update_log Create). fst u \<in> set job_statuses"
    by (simp_all add: Create_def job_statuses_def)
  from status_run [OF this assms] show ?thesis
    by (simp add: GetJob_def)
qed

theorem snapshot_status_witness:
  "run Create example_events = Some example_job \<and>
   fst (GetJob example_job) = ''lipsync_processing'' \<and>
   fst (GetJob example_job) \<in> set job_statuses \<and>
   fst (snd (GetJob example_job) ! 4) \<in> set job_statuses"
proof -
  have r: "run Create example_events = Some example_job"
    by (simp add: example_events_def example_job_def Create_def Transition_def ReadyStages_def
          all_stages_def is_terminal_status_def insert_commute)
  have g: "fst (GetJob example_job) = ''lipsync_processing''"
    by (simp add: GetJob_def example_job_def)
  have m: "snd (GetJob example_job) ! 4 \<in> set (snd (GetJob example_job))"
    by (simp add: GetJob_def example_job_def)
  from snapshot_status [OF r] r g m show ?thesis by blast
qed

end
